theory Spec2Isabelle
  imports Main
begin

section \<open>The model optimisation script \<open>scripts/optimize_ppocr_models.py\<close>\<close>

text \<open>
  The script is a sequential pipeline of effects: it reads two environment variables,
  downloads files, unpacks archives, runs an external command and moves files around.
  The embedding threads an explicit world through every function. The world holds the
  local file system and the trace of the calls that leave the process (downloads and
  shell commands). Everything the script cannot control is a parameter of the model:
  the environment variables, the answer of the network, the exit status and the effect
  of a shell command, and the members found in an archive.

  Scope of the model. Exceptions the script reacts to or lets escape are values
  (\<open>exn\<close>): a failed download, an unreadable archive, \<open>sys.exit\<close>. Operations on the
  local file system (\<open>os.makedirs\<close>, \<open>os.remove\<close>, \<open>shutil.copy2\<close>,
  \<open>shutil.rmtree\<close>, writing a file opened with \<open>open(..., 'w')\<close>) are taken with their
  nominal effect; failures from permissions, missing parent directories or a full disk
  are outside the model. Writes to standard output do not influence the control flow and
  are left out. Strings are byte strings; every string the script compares is ASCII.
\<close>

subsection \<open>World, events, exceptions\<close>

datatype node = Dir | File string

type_synonym fsys = "string \<Rightarrow> node option"

datatype event =
    Urlretrieve string string  \<comment> \<open>\<open>urllib.request.urlretrieve(url, path)\<close> was called\<close>
  | System string              \<comment> \<open>\<open>os.system(cmd)\<close> was called\<close>

record world =
  fs :: fsys
  trace :: "event list"

datatype exn =
    SystemExit int   \<comment> \<open>raised by \<open>sys.exit(n)\<close>; not an \<open>Exception\<close>\<close>
  | Error string     \<comment> \<open>an instance of (a subclass of) \<open>Exception\<close>, with its message\<close>

record env =
  environ :: "string \<Rightarrow> string option"
  net :: "world \<Rightarrow> string \<Rightarrow> string + string"
  shell :: "world \<Rightarrow> string \<Rightarrow> int \<times> fsys"
  tar_members :: "string \<Rightarrow> string + (string \<times> node) list"

text \<open>
  \<open>net E w url\<close> is what fetching \<open>url\<close> gives when the world is \<open>w\<close>: \<open>Inl msg\<close>
  when the fetch raises, \<open>Inr body\<close> when it delivers \<open>body\<close>. \<open>shell E w cmd\<close> is the
  wait status of the command and the file system it leaves behind. \<open>tar_members E c\<close>
  reads the bytes \<open>c\<close> as a tar archive: \<open>Inl msg\<close> when they are not one, otherwise the
  members with their paths inside the archive.
\<close>

text \<open>The exit status of the process: 0 on normal return, the argument of \<open>sys.exit\<close>,
  and 1 when an exception escapes \<open>main\<close>.\<close>

fun exit_status :: "exn + unit \<Rightarrow> int" where
  "exit_status (Inr _) = 0"
| "exit_status (Inl (SystemExit n)) = n"
| "exit_status (Inl (Error _)) = 1"

subsection \<open>Library calls\<close>

text \<open>\<open>str.lower\<close> on ASCII.\<close>

definition lower_char :: "char \<Rightarrow> char" where
  "lower_char c =
     (let n = (of_char c :: nat) in if 65 \<le> n \<and> n \<le> 90 then char_of (n + 32) else c)"

definition lower :: "string \<Rightarrow> string" where
  "lower s = map lower_char s"

text \<open>\<open>os.environ.get(key, default)\<close>.\<close>

definition environ_get :: "env \<Rightarrow> string \<Rightarrow> string \<Rightarrow> string" where
  "environ_get E key dflt = (case environ E key of None \<Rightarrow> dflt | Some v \<Rightarrow> v)"

text \<open>\<open>os.path.join\<close> of two components (POSIX): an absolute second component
  replaces the first, otherwise the two are joined with one separator.\<close>

definition os_path_join :: "string \<Rightarrow> string \<Rightarrow> string" where
  "os_path_join a b =
     (if b \<noteq> [] \<and> hd b = CHR ''/'' then b
      else if a = [] \<or> last a = CHR ''/'' then a @ b
      else a @ ''/'' @ b)"

definition os_path_join3 :: "string \<Rightarrow> string \<Rightarrow> string \<Rightarrow> string" where
  "os_path_join3 a b c = os_path_join (os_path_join a b) c"

text \<open>\<open>s.split('/')[-1]\<close>: what follows the last slash (all of \<open>s\<close> when it has none).\<close>

definition split_last :: "string \<Rightarrow> string" where
  "split_last s = rev (takeWhile (\<lambda>c. c \<noteq> CHR ''/'') (rev s))"

definition os_path_exists :: "world \<Rightarrow> string \<Rightarrow> bool" where
  "os_path_exists w p = (fs w p \<noteq> None)"

definition os_makedirs :: "string \<Rightarrow> world \<Rightarrow> world" where
  \<comment> \<open>\<open>os.makedirs(p, exist_ok=True)\<close>\<close>
  "os_makedirs p w = (if fs w p = None then w\<lparr>fs := (fs w)(p \<mapsto> Dir)\<rparr> else w)"

definition os_remove :: "string \<Rightarrow> world \<Rightarrow> world" where
  "os_remove p w = w\<lparr>fs := (fs w)(p := None)\<rparr>"

definition under :: "string \<Rightarrow> string \<Rightarrow> bool" where
  \<comment> \<open>\<open>p\<close> is the directory \<open>d\<close> or lies below it\<close>
  "under d p = (p = d \<or> take (length d + 1) p = d @ ''/'')"

definition shutil_rmtree :: "string \<Rightarrow> world \<Rightarrow> world" where
  "shutil_rmtree d w = w\<lparr>fs := (\<lambda>p. if under d p then None else fs w p)\<rparr>"

definition shutil_copy2 :: "string \<Rightarrow> string \<Rightarrow> world \<Rightarrow> world" where
  "shutil_copy2 src dst w =
     (case fs w src of
        Some (File c) \<Rightarrow> w\<lparr>fs := (fs w)(dst \<mapsto> File c)\<rparr>
      | _ \<Rightarrow> w)"

definition write_file :: "string \<Rightarrow> string \<Rightarrow> world \<Rightarrow> world" where
  \<comment> \<open>\<open>open(p, 'w')\<close>, the writes, and the close\<close>
  "write_file p c w = w\<lparr>fs := (fs w)(p \<mapsto> File c)\<rparr>"

definition urlretrieve :: "env \<Rightarrow> string \<Rightarrow> string \<Rightarrow> world \<Rightarrow> (exn + unit) \<times> world" where
  "urlretrieve E u p w =
     (let w1 = w\<lparr>trace := trace w @ [Urlretrieve u p]\<rparr> in
      case net E w u of
        Inl msg \<Rightarrow> (Inl (Error msg), w1)
      | Inr body \<Rightarrow> (Inr (), write_file p body w1))"

definition os_system :: "env \<Rightarrow> string \<Rightarrow> world \<Rightarrow> int \<times> world" where
  "os_system E cmd w =
     (case shell E w cmd of
        (status, fs') \<Rightarrow> (status, \<lparr>fs = fs', trace = trace w @ [System cmd]\<rparr>))"

definition extract_member :: "string \<Rightarrow> string \<times> node \<Rightarrow> fsys \<Rightarrow> fsys" where
  "extract_member dest m f = f(os_path_join dest (fst m) \<mapsto> snd m)"

definition tarfile_extractall :: "env \<Rightarrow> string \<Rightarrow> string \<Rightarrow> world \<Rightarrow> (exn + unit) \<times> world" where
  \<comment> \<open>\<open>with tarfile.open(filename, 'r') as tar: tar.extractall(dest)\<close>\<close>
  "tarfile_extractall E filename dest w =
     (case fs w filename of
        Some (File c) \<Rightarrow>
          (case tar_members E c of
             Inl msg \<Rightarrow> (Inl (Error msg), w)
           | Inr ms \<Rightarrow> (Inr (), w\<lparr>fs := fold (extract_member dest) ms (fs w)\<rparr>))
      | _ \<Rightarrow> (Inl (Error ''cannot open archive''), w))"

subsection \<open>Configuration (lines 17--153)\<close>

definition OCR_VERSION :: "env \<Rightarrow> string" where
  "OCR_VERSION E = lower (environ_get E ''OCR_VERSION'' ''v3'')"

definition USE_HUGGINGFACE :: "env \<Rightarrow> bool" where
  "USE_HUGGINGFACE E = (lower (environ_get E ''USE_HF'' ''false'') = ''true'')"

record config =
  url :: string
  name :: string
  "output" :: string
  is_hf_repo :: "bool option"   \<comment> \<open>\<open>None\<close>: the key is absent from the dictionary\<close>

definition cls_url :: string where
  "cls_url = ''https://paddleocr.bj.bcebos.com/dygraph_v2.0/ch/ch_ppocr_mobile_v2.0_cls_infer.tar''"

definition MODELS_table :: "string \<Rightarrow> bool \<Rightarrow> (string \<times> config) list" where
  "MODELS_table ver hf =
    (if ver = ''v5'' then
       (if hf then
          [(''detection'',
              \<lparr>url = ''https://huggingface.co/PaddlePaddle/PP-OCRv5_mobile_det'',
               name = ''PP-OCRv5_mobile_det'', output = ''ppocr_det_v5'',
               is_hf_repo = Some True\<rparr>),
           (''recognition'',
              \<lparr>url = ''https://huggingface.co/PaddlePaddle/PP-OCRv5_mobile_rec'',
               name = ''PP-OCRv5_mobile_rec'', output = ''ppocr_rec_v5'',
               is_hf_repo = Some True\<rparr>),
           (''classifier'',
              \<lparr>url = cls_url, name = ''ch_ppocr_mobile_v2.0_cls_infer'', output = ''ppocr_cls'',
               is_hf_repo = Some False\<rparr>)]
        else
          [(''detection'',
              \<lparr>url = ''https://paddleocr.bj.bcebos.com/PP-OCRv5/chinese/ch_PP-OCRv5_det_infer.tar'',
               name = ''ch_PP-OCRv5_det_infer'', output = ''ppocr_det_v5'',
               is_hf_repo = Some False\<rparr>),
           (''recognition'',
              \<lparr>url = ''https://paddleocr.bj.bcebos.com/PP-OCRv5/chinese/ch_PP-OCRv5_rec_infer.tar'',
               name = ''ch_PP-OCRv5_rec_infer'', output = ''ppocr_rec_v5'',
               is_hf_repo = Some False\<rparr>),
           (''classifier'',
              \<lparr>url = cls_url, name = ''ch_ppocr_mobile_v2.0_cls_infer'', output = ''ppocr_cls'',
               is_hf_repo = Some False\<rparr>)])
     else if ver = ''v4'' then
       (if hf then
          [(''detection'',
              \<lparr>url = ''https://huggingface.co/PaddlePaddle/PP-OCRv4_mobile_det'',
               name = ''PP-OCRv4_mobile_det'', output = ''ppocr_det_v4'',
               is_hf_repo = Some True\<rparr>),
           (''recognition'',
              \<lparr>url = ''https://huggingface.co/PaddlePaddle/PP-OCRv4_mobile_rec'',
               name = ''PP-OCRv4_mobile_rec'', output = ''ppocr_rec_v4'',
               is_hf_repo = Some True\<rparr>),
           (''classifier'',
              \<lparr>url = cls_url, name = ''ch_ppocr_mobile_v2.0_cls_infer'', output = ''ppocr_cls'',
               is_hf_repo = Some False\<rparr>)]
        else
          [(''detection'',
              \<lparr>url = ''https://paddleocr.bj.bcebos.com/PP-OCRv4/chinese/ch_PP-OCRv4_det_infer.tar'',
               name = ''ch_PP-OCRv4_det_infer'', output = ''ppocr_det_v4'',
               is_hf_repo = Some False\<rparr>),
           (''recognition'',
              \<lparr>url = ''https://paddleocr.bj.bcebos.com/PP-OCRv4/chinese/ch_PP-OCRv4_rec_infer.tar'',
               name = ''ch_PP-OCRv4_rec_infer'', output = ''ppocr_rec_v4'',
               is_hf_repo = Some False\<rparr>),
           (''classifier'',
              \<lparr>url = cls_url, name = ''ch_ppocr_mobile_v2.0_cls_infer'', output = ''ppocr_cls'',
               is_hf_repo = Some False\<rparr>)])
     else
       (if hf then
          [(''detection'',
              \<lparr>url = ''https://huggingface.co/PaddlePaddle/ch_PP-OCRv3_det_infer/resolve/main/inference.tar'',
               name = ''ch_PP-OCRv3_det_infer'', output = ''ppocr_det_v3'',
               is_hf_repo = None\<rparr>),
           (''recognition'',
              \<lparr>url = ''https://huggingface.co/PaddlePaddle/ch_PP-OCRv3_rec_infer/resolve/main/inference.tar'',
               name = ''ch_PP-OCRv3_rec_infer'', output = ''ppocr_rec_v3'',
               is_hf_repo = None\<rparr>),
           (''classifier'',
              \<lparr>url = cls_url, name = ''ch_ppocr_mobile_v2.0_cls_infer'', output = ''ppocr_cls'',
               is_hf_repo = None\<rparr>)]
        else
          [(''detection'',
              \<lparr>url = ''https://paddleocr.bj.bcebos.com/PP-OCRv3/chinese/ch_PP-OCRv3_det_infer.tar'',
               name = ''ch_PP-OCRv3_det_infer'', output = ''ppocr_det_v3'',
               is_hf_repo = None\<rparr>),
           (''recognition'',
              \<lparr>url = ''https://paddleocr.bj.bcebos.com/PP-OCRv3/chinese/ch_PP-OCRv3_rec_infer.tar'',
               name = ''ch_PP-OCRv3_rec_infer'', output = ''ppocr_rec_v3'',
               is_hf_repo = None\<rparr>),
           (''classifier'',
              \<lparr>url = cls_url, name = ''ch_ppocr_mobile_v2.0_cls_infer'', output = ''ppocr_cls'',
               is_hf_repo = None\<rparr>)]))"

text \<open>The module-level table \<open>MODELS\<close>, a dictionary in insertion order.\<close>

definition MODELS :: "env \<Rightarrow> (string \<times> config) list" where
  "MODELS E = MODELS_table (OCR_VERSION E) (USE_HUGGINGFACE E)"

text \<open>\<open>config.get('is_hf_repo', False)\<close>.\<close>

definition get_is_hf_repo :: "config \<Rightarrow> bool" where
  "get_is_hf_repo c = (case is_hf_repo c of None \<Rightarrow> False | Some b \<Rightarrow> b)"

subsection \<open>\<open>download_hf_model\<close> (lines 155--187)\<close>

text \<open>The loop over \<open>files\<close>. The handler of the \<open>try\<close> prints and re-raises, so an
  exception of \<open>urlretrieve\<close> leaves the loop and the function.\<close>

fun download_hf_model_loop ::
  "env \<Rightarrow> string \<Rightarrow> string \<Rightarrow> string list \<Rightarrow> world \<Rightarrow> (exn + unit) \<times> world" where
  "download_hf_model_loop E base_url model_dir [] w = (Inr (), w)"
| "download_hf_model_loop E base_url model_dir (filename # rest) w =
     (let file_url = base_url @ ''/'' @ filename;
          output_path = os_path_join model_dir filename
      in case urlretrieve E file_url output_path w of
           (Inl e, w') \<Rightarrow> (Inl e, w')
         | (Inr _, w') \<Rightarrow> download_hf_model_loop E base_url model_dir rest w')"

definition hf_files :: "string list" where
  "hf_files = [''inference.pdiparams'', ''inference.json'']"

definition download_hf_model ::
  "env \<Rightarrow> string \<Rightarrow> string \<Rightarrow> string \<Rightarrow> world \<Rightarrow> (exn + unit) \<times> world" where
  "download_hf_model E repo_url model_name extract_path w =
     (let model_dir = os_path_join extract_path model_name;
          w1 = os_makedirs model_dir w;
          base_url = repo_url @ ''/resolve/main''
      in case download_hf_model_loop E base_url model_dir hf_files w1 of
           (Inl e, w2) \<Rightarrow> (Inl e, w2)
         | (Inr _, w2) \<Rightarrow>
             (let json_path = os_path_join model_dir ''inference.json'';
                  model_path = os_path_join model_dir ''inference.pdmodel''
              in if os_path_exists w2 json_path
                 then (Inr (), shutil_copy2 json_path model_path w2)
                 else (Inr (), w2)))"

subsection \<open>\<open>download_and_extract\<close> (lines 189--205)\<close>

definition download_and_extract ::
  "env \<Rightarrow> string \<Rightarrow> string \<Rightarrow> world \<Rightarrow> (exn + unit) \<times> world" where
  "download_and_extract E u extract_path w =
     (let filename = split_last u
      in case urlretrieve E u filename w of
           (Inl e, w1) \<Rightarrow> (Inl e, w1)
         | (Inr _, w1) \<Rightarrow>
             (case tarfile_extractall E filename extract_path w1 of
                (Inl e, w2) \<Rightarrow> (Inl e, w2)
              | (Inr _, w2) \<Rightarrow> (Inr (), os_remove filename w2)))"

subsection \<open>\<open>optimize_model\<close> (lines 207--247)\<close>

definition opt_cmd :: "string \<Rightarrow> string \<Rightarrow> string \<Rightarrow> string" where
  "opt_cmd model_file param_file output_file =
     ''paddle_lite_opt '' @
     ''--model_file='' @ model_file @ '' '' @
     ''--param_file='' @ param_file @ '' '' @
     ''--optimize_out='' @ output_file @ '' '' @
     ''--valid_targets=arm '' @
     ''--optimize_out_type=naive_buffer '' @
     ''--enable_fp16=true''"

text \<open>The function has no path that raises: it returns \<open>True\<close> or \<open>False\<close>.\<close>

definition optimize_model ::
  "env \<Rightarrow> string \<Rightarrow> string \<Rightarrow> string \<Rightarrow> world \<Rightarrow> bool \<times> world" where
  "optimize_model E model_dir model_name output_name w =
     (let model_file = os_path_join3 model_dir model_name ''inference.pdmodel'';
          param_file = os_path_join3 model_dir model_name ''inference.pdiparams'';
          (model_file, param_file) =
             (if \<not> os_path_exists w model_file
              then (os_path_join3 model_dir model_name (model_name @ ''.pdmodel''),
                    os_path_join3 model_dir model_name (model_name @ ''.pdiparams''))
              else (model_file, param_file));
          output_file = os_path_join ''optimized_models'' output_name
      in if \<not> os_path_exists w model_file then (False, w)
         else (case os_system E (opt_cmd model_file param_file output_file) w of
                 (result, w') \<Rightarrow> if result = 0 then (True, w') else (False, w')))"

subsection \<open>\<open>download_ppocr_dict\<close> (lines 249--267)\<close>

definition dict_url :: string where
  "dict_url = ''https://raw.githubusercontent.com/PaddlePaddle/PaddleOCR/main/ppocr/utils/dict/en_dict.txt''"

definition dict_file :: string where
  "dict_file = ''optimized_models/ppocr_keys_v1.txt''"

definition chars :: string where
  "chars = ''abcdefghijklmnopqrstuvwxyzABCDEFGHIJKLMNOPQRSTUVWXYZ0123456789''"

text \<open>What the loop \<open>for char in chars: f.write(f"{char}\n")\<close> writes.\<close>

fun write_chars :: "string \<Rightarrow> string" where
  "write_chars [] = []"
| "write_chars (char # rest) = [char, CHR 0x0A] @ write_chars rest"

text \<open>\<open>except Exception\<close> catches every \<open>Error\<close>, and lets \<open>SystemExit\<close> pass.\<close>

definition download_ppocr_dict :: "env \<Rightarrow> world \<Rightarrow> (exn + unit) \<times> world" where
  "download_ppocr_dict E w =
     (case urlretrieve E dict_url dict_file w of
        (Inr _, w1) \<Rightarrow> (Inr (), w1)
      | (Inl (Error e), w1) \<Rightarrow> (Inr (), write_file dict_file (write_chars chars) w1)
      | (Inl (SystemExit n), w1) \<Rightarrow> (Inl (SystemExit n), w1))"

subsection \<open>\<open>main\<close> (lines 269--323)\<close>

definition probe_cmd :: string where
  "probe_cmd = ''paddle_lite_opt --help > /dev/null 2>&1''"

text \<open>The loop \<open>for model_type, config in MODELS.items()\<close>.\<close>

fun main_loop :: "env \<Rightarrow> (string \<times> config) list \<Rightarrow> world \<Rightarrow> (exn + unit) \<times> world" where
  "main_loop E [] w = (Inr (), w)"
| "main_loop E ((model_type, config) # rest) w =
     (case (if get_is_hf_repo config
            then download_hf_model E (url config) (name config) ''downloads'' w
            else download_and_extract E (url config) ''downloads'' w) of
        (Inl e, w1) \<Rightarrow> (Inl e, w1)
      | (Inr _, w1) \<Rightarrow>
          (case optimize_model E ''downloads'' (name config) (output config) w1 of
             (success, w2) \<Rightarrow>
               if \<not> success then (Inl (SystemExit 1), w2)
               else main_loop E rest w2))"

text \<open>The closing report (lines 311--323) only prints and is left out.\<close>

definition main :: "env \<Rightarrow> world \<Rightarrow> (exn + unit) \<times> world" where
  "main E w =
     (let w1 = os_makedirs ''downloads'' w;
          w2 = os_makedirs ''optimized_models'' w1
      in case os_system E probe_cmd w2 of
           (status, w3) \<Rightarrow>
             if status \<noteq> 0 then (Inl (SystemExit 1), w3)
             else (case main_loop E (MODELS E) w3 of
                     (Inl e, w4) \<Rightarrow> (Inl e, w4)
                   | (Inr _, w4) \<Rightarrow>
                       (case download_ppocr_dict E w4 of
                          (Inl e, w5) \<Rightarrow> (Inl e, w5)
                        | (Inr _, w5) \<Rightarrow> (Inr (), shutil_rmtree ''downloads'' w5))))"

subsection \<open>Notions used to state the properties\<close>

text \<open>The world in which \<open>main\<close> probes the optimizer: both directories are made.\<close>

definition after_makedirs :: "world \<Rightarrow> world" where
  "after_makedirs w = os_makedirs ''optimized_models'' (os_makedirs ''downloads'' w)"

text \<open>The download of one iteration of the loop of \<open>main\<close> (lines 291--295).\<close>

definition download_step :: "env \<Rightarrow> config \<Rightarrow> world \<Rightarrow> (exn + unit) \<times> world" where
  "download_step E c w =
     (if get_is_hf_repo c
      then download_hf_model E (url c) (name c) ''downloads'' w
      else download_and_extract E (url c) ''downloads'' w)"

text \<open>The four paths \<open>optimize_model\<close> builds (lines 210--216).\<close>

definition primary_model :: "string \<Rightarrow> string \<Rightarrow> string" where
  "primary_model d n = os_path_join3 d n ''inference.pdmodel''"

definition primary_param :: "string \<Rightarrow> string \<Rightarrow> string" where
  "primary_param d n = os_path_join3 d n ''inference.pdiparams''"

definition legacy_model :: "string \<Rightarrow> string \<Rightarrow> string" where
  "legacy_model d n = os_path_join3 d n (n @ ''.pdmodel'')"

definition legacy_param :: "string \<Rightarrow> string \<Rightarrow> string" where
  "legacy_param d n = os_path_join3 d n (n @ ''.pdiparams'')"

text \<open>The invocation of the optimizer on given files (lines 229--247): the command is
  recorded in the trace, the result is whether its status is 0.\<close>

definition run_optimizer ::
  "env \<Rightarrow> string \<Rightarrow> string \<Rightarrow> string \<Rightarrow> world \<Rightarrow> bool \<times> world" where
  "run_optimizer E model_file param_file output_name w =
     (fst (shell E w (opt_cmd model_file param_file (os_path_join ''optimized_models'' output_name))) = 0,
      \<lparr>fs = snd (shell E w (opt_cmd model_file param_file (os_path_join ''optimized_models'' output_name))),
       trace = trace w @
         [System (opt_cmd model_file param_file (os_path_join ''optimized_models'' output_name))]\<rparr>)"

text \<open>A configuration table is well formed when it has the three model kinds, in the
  order of the source, each with a non-empty URL, name and output file name.\<close>

definition nonempty_triple :: "config \<Rightarrow> bool" where
  "nonempty_triple c = (url c \<noteq> [] \<and> name c \<noteq> [] \<and> output c \<noteq> [])"

definition well_formed :: "(string \<times> config) list \<Rightarrow> bool" where
  "well_formed t =
     (map fst t = [''detection'', ''recognition'', ''classifier''] \<and>
      list_all nonempty_triple (map snd t))"

text \<open>ASCII letters and digits, by character code.\<close>

definition alnum :: "char \<Rightarrow> bool" where
  "alnum c =
     (let n = (of_char c :: nat)
      in (48 \<le> n \<and> n \<le> 57) \<or> (65 \<le> n \<and> n \<le> 90) \<or> (97 \<le> n \<and> n \<le> 122))"

subsection \<open>Concrete environments and worlds\<close>

definition web_up :: "string \<Rightarrow> string + string" where
  "web_up u = Inr ''archive''"

definition web_down :: "string \<Rightarrow> string + string" where
  "web_down u = Inl ''URLError''"

definition web_no_json :: "string \<Rightarrow> string + string" where
  "web_no_json u =
     (if u = ''https://huggingface.co/PaddlePaddle/PP-OCRv5_mobile_det/resolve/main/inference.json''
      then Inl ''HTTP Error 404: Not Found'' else Inr ''data'')"

text \<open>An environment whose network answers by \<open>web\<close>, whose shell commands all end with
  \<open>status\<close> and touch no file, and whose archives all hold \<open>members\<close>.\<close>

definition mk_env ::
  "(string \<Rightarrow> string option) \<Rightarrow> (string \<Rightarrow> string + string) \<Rightarrow> int \<Rightarrow>
   (string \<times> node) list \<Rightarrow> env" where
  "mk_env vars web status members =
     \<lparr>environ = vars, net = (\<lambda>w. web), shell = (\<lambda>w cmd. (status, fs w)),
      tar_members = (\<lambda>c. Inr members)\<rparr>"

definition world0 :: world where
  "world0 = \<lparr>fs = Map.empty, trace = []\<rparr>"

definition v3_members :: "(string \<times> node) list" where
  "v3_members =
     [(''ch_PP-OCRv3_det_infer/inference.pdmodel'', File ''graph''),
      (''ch_PP-OCRv3_det_infer/inference.pdiparams'', File ''weights''),
      (''ch_PP-OCRv3_rec_infer/inference.pdmodel'', File ''graph''),
      (''ch_PP-OCRv3_rec_infer/inference.pdiparams'', File ''weights''),
      (''ch_ppocr_mobile_v2.0_cls_infer/inference.pdmodel'', File ''graph''),
      (''ch_ppocr_mobile_v2.0_cls_infer/inference.pdiparams'', File ''weights'')]"

text \<open>The optimizer is missing; the optimizer is there and the archives are empty; the
  optimizer is there and the archives hold the models; the network is down; one file of
  a model repository is missing.\<close>

definition env_no_tool :: env where
  "env_no_tool = mk_env Map.empty web_up 32512 []"

definition env_empty_archives :: env where
  "env_empty_archives = mk_env Map.empty web_up 0 []"

definition env_v3 :: "(string \<Rightarrow> string option) \<Rightarrow> env" where
  "env_v3 vars = mk_env vars web_up 0 v3_members"

definition env_offline :: env where
  "env_offline = mk_env Map.empty web_down 0 []"

definition env_no_json :: env where
  "env_no_json = mk_env Map.empty web_no_json 0 []"

text \<open>Worlds with a model file under one naming convention and no parameter file.\<close>

definition world_primary :: world where
  "world_primary = \<lparr>fs = [''downloads/m/inference.pdmodel'' \<mapsto> File ''graph''], trace = []\<rparr>"

definition world_legacy :: world where
  "world_legacy = \<lparr>fs = [''downloads/m/m.pdmodel'' \<mapsto> File ''graph''], trace = []\<rparr>"

section \<open>Properties\<close>

subsection \<open>Auxiliary facts\<close>

lemma trace_os_makedirs [simp]: "trace (os_makedirs p w) = trace w"
  by (simp add: os_makedirs_def)

lemma trace_after_makedirs [simp]: "trace (after_makedirs w) = trace w"
  by (simp add: after_makedirs_def)

lemma main_unfold:
  "main E w =
     (case os_system E probe_cmd (after_makedirs w) of
        (status, w3) \<Rightarrow>
          if status \<noteq> 0 then (Inl (SystemExit 1), w3)
          else (case main_loop E (MODELS E) w3 of
                  (Inl e, w4) \<Rightarrow> (Inl e, w4)
                | (Inr _, w4) \<Rightarrow>
                    (case download_ppocr_dict E w4 of
                       (Inl e, w5) \<Rightarrow> (Inl e, w5)
                     | (Inr _, w5) \<Rightarrow> (Inr (), shutil_rmtree ''downloads'' w5))))"
  by (simp add: main_def after_makedirs_def Let_def)

lemma main_loop_step:
  "main_loop E ((k, c) # rest) w =
     (case download_step E c w of
        (Inl e, w1) \<Rightarrow> (Inl e, w1)
      | (Inr _, w1) \<Rightarrow>
          (case optimize_model E ''downloads'' (name c) (output c) w1 of
             (success, w2) \<Rightarrow>
               if \<not> success then (Inl (SystemExit 1), w2) else main_loop E rest w2))"
  by (simp add: download_step_def)

declare main_loop.simps(2) [simp del]

lemma main_loop_append:
  "main_loop E (xs @ ys) w =
     (case main_loop E xs w of
        (Inl e, w1) \<Rightarrow> (Inl e, w1)
      | (Inr _, w1) \<Rightarrow> main_loop E ys w1)"
proof (induction xs arbitrary: w)
  case Nil
  show ?case by simp
next
  case (Cons x xs)
  obtain k c where x: "x = (k, c)" by (cases x)
  show ?case
    unfolding x append_Cons main_loop_step
    by (simp add: Cons.IH split: prod.splits sum.splits)
qed

lemma download_hf_model_loop_append:
  "download_hf_model_loop E b d (xs @ ys) w =
     (case download_hf_model_loop E b d xs w of
        (Inl e, w1) \<Rightarrow> (Inl e, w1)
      | (Inr _, w1) \<Rightarrow> download_hf_model_loop E b d ys w1)"
  by (induction xs arbitrary: w) (simp_all add: Let_def split: prod.splits sum.splits)

lemma optimize_model_cases:
  "optimize_model E d n out w =
     (if os_path_exists w (primary_model d n)
      then run_optimizer E (primary_model d n) (primary_param d n) out w
      else if os_path_exists w (legacy_model d n)
      then run_optimizer E (legacy_model d n) (legacy_param d n) out w
      else (False, w))"
  by (auto simp add: optimize_model_def Let_def run_optimizer_def os_system_def
        primary_model_def primary_param_def legacy_model_def legacy_param_def
      split: prod.splits)

lemma download_ppocr_dict_returns: "fst (download_ppocr_dict E w) = Inr ()"
  by (simp add: download_ppocr_dict_def urlretrieve_def Let_def split: sum.splits)

lemma main_success:
  assumes "fst (shell E (after_makedirs w) probe_cmd) = 0"
      and "fst (main_loop E (MODELS E) (snd (os_system E probe_cmd (after_makedirs w)))) = Inr ()"
  shows "\<exists>w5. main E w = (Inr (), shutil_rmtree ''downloads'' w5)"
proof -
  obtain w3 where sys: "os_system E probe_cmd (after_makedirs w) = (0, w3)"
    using assms(1) by (cases "shell E (after_makedirs w) probe_cmd") (simp add: os_system_def)
  obtain w4 where loop: "main_loop E (MODELS E) w3 = (Inr (), w4)"
    using assms(2) sys by (cases "main_loop E (MODELS E) w3") simp
  obtain w5 where dict: "download_ppocr_dict E w4 = (Inr (), w5)"
    using download_ppocr_dict_returns [of E w4] by (cases "download_ppocr_dict E w4") simp
  have "main E w = (Inr (), shutil_rmtree ''downloads'' w5)"
    by (simp add: main_unfold sys loop dict)
  then show ?thesis ..
qed

lemma write_chars_concat: "write_chars s = concat (map (\<lambda>c. [c, CHR 0x0A]) s)"
  by (induction s) simp_all

lemma chars_codes: "map of_char chars = [97..<123] @ [65..<91] @ [48..<58 :: nat]"
  by (simp add: chars_def upt_rec)

lemma chars_alnum: "c \<in> set chars \<longleftrightarrow> alnum c"
proof -
  have "c \<in> set chars \<longleftrightarrow> (of_char c :: nat) \<in> of_char ` set chars"
    by (metis (no_types) image_iff char_of_comp_of_char comp_apply id_apply)
  also have "of_char ` set chars = set (map of_char chars :: nat list)" by simp
  also have "\<dots> = {97..<123} \<union> {65..<91} \<union> {48..<58}"
    unfolding chars_codes by (simp only: set_append set_upt Un_assoc)
  also have "(of_char c :: nat) \<in> \<dots> \<longleftrightarrow> alnum c"
    by (auto simp add: alnum_def Let_def)
  finally show ?thesis .
qed

text \<open>The definitions that evaluate a run on a concrete environment.\<close>

lemmas env_defs =
  mk_env_def world0_def web_up_def web_down_def web_no_json_def v3_members_def
  env_no_tool_def env_empty_archives_def env_v3_def env_offline_def env_no_json_def
  world_primary_def world_legacy_def

lemmas run_defs =
  after_makedirs_def os_makedirs_def os_system_def probe_cmd_def
  main_loop_step download_step_def get_is_hf_repo_def
  download_and_extract_def download_hf_model_def hf_files_def
  urlretrieve_def tarfile_extractall_def extract_member_def write_file_def os_remove_def
  shutil_copy2_def optimize_model_def opt_cmd_def
  os_path_exists_def os_path_join_def os_path_join3_def split_last_def
  primary_model_def primary_param_def legacy_model_def legacy_param_def
  MODELS_def MODELS_table_def OCR_VERSION_def USE_HUGGINGFACE_def environ_get_def
  lower_def lower_char_def cls_url_def Let_def

lemma v3_table: "vars ''OCR_VERSION'' = None \<or> vars ''OCR_VERSION'' = Some ''latest'' \<Longrightarrow>
    vars ''USE_HF'' = None \<Longrightarrow> MODELS (env_v3 vars) = MODELS_table ''v3'' False"
  by (auto simp add: MODELS_def MODELS_table_def OCR_VERSION_def USE_HUGGINGFACE_def
        environ_get_def lower_def lower_char_def env_v3_def mk_env_def)

lemma v3_probe: "fst (shell (env_v3 vars) (after_makedirs world0) probe_cmd) = 0"
  by (simp add: env_v3_def mk_env_def)

lemma v3_loop:
  "fst (main_loop (env_v3 vars) (MODELS_table ''v3'' False)
          (snd (os_system (env_v3 vars) probe_cmd (after_makedirs world0)))) = Inr ()"
  by (simp add: env_defs run_defs)

subsection \<open>The optimizer is probed first\<close>

text \<open>
  Claim C1. When the probe \<open>paddle_lite_opt --help\<close> returns a status other than 0,
  \<open>main\<close> raises \<open>SystemExit(1)\<close>, so the process ends with a status other than 0, and
  the only call that left the process is the probe itself: no file was downloaded and
  the optimizer was not run on any model.
\<close>

theorem probe_failure_aborts:
  assumes "fst (shell E (after_makedirs w) probe_cmd) \<noteq> 0"
  shows "fst (main E w) = Inl (SystemExit 1) \<and>
         exit_status (fst (main E w)) \<noteq> 0 \<and>
         trace (snd (main E w)) = trace w @ [System probe_cmd]"
proof -
  obtain status fs' where sh: "shell E (after_makedirs w) probe_cmd = (status, fs')"
    by (cases "shell E (after_makedirs w) probe_cmd")
  with assms have nz: "status \<noteq> 0" by simp
  have "main E w = (Inl (SystemExit 1), \<lparr>fs = fs', trace = trace w @ [System probe_cmd]\<rparr>)"
    by (simp add: main_unfold os_system_def sh nz)
  then show ?thesis by simp
qed

theorem probe_failure_aborts_witness:
  "fst (shell env_no_tool (after_makedirs world0) probe_cmd) \<noteq> 0 \<and>
   fst (main env_no_tool world0) = Inl (SystemExit 1) \<and>
   exit_status (fst (main env_no_tool world0)) \<noteq> 0 \<and>
   trace (snd (main env_no_tool world0)) = trace world0 @ [System probe_cmd]"
proof -
  have h: "fst (shell env_no_tool (after_makedirs world0) probe_cmd) \<noteq> 0"
    by (simp add: env_no_tool_def mk_env_def)
  show ?thesis using h probe_failure_aborts [OF h] by (rule conjI)
qed

subsection \<open>A missing model file stops the run\<close>

text \<open>
  Claim C2. Take a run of \<open>main\<close> in which the probe succeeds, the models before
  \<open>model_type\<close> are processed, and the download of \<open>model_type\<close> succeeds and leaves the
  world \<open>w2\<close>. If in \<open>w2\<close> neither \<open>inference.pdmodel\<close> nor \<open>{model_name}.pdmodel\<close>
  exists in the model's directory, then \<open>optimize_model\<close> returns \<open>False\<close> and leaves
  the world as it is (its trace has no new command, so the optimizer was not invoked),
  and \<open>main\<close> ends there with \<open>SystemExit(1)\<close>.
\<close>

theorem missing_model_file_aborts:
  assumes probe: "os_system E probe_cmd (after_makedirs w) = (0, w0)"
      and table: "MODELS E = before @ (model_type, c) # rest"
      and before: "main_loop E before w0 = (Inr (), w1)"
      and download: "download_step E c w1 = (Inr (), w2)"
      and primary: "\<not> os_path_exists w2 (primary_model ''downloads'' (name c))"
      and legacy: "\<not> os_path_exists w2 (legacy_model ''downloads'' (name c))"
  shows "optimize_model E ''downloads'' (name c) (output c) w2 = (False, w2) \<and>
         main E w = (Inl (SystemExit 1), w2) \<and>
         exit_status (fst (main E w)) \<noteq> 0"
proof -
  have opt: "optimize_model E ''downloads'' (name c) (output c) w2 = (False, w2)"
    using primary legacy by (simp add: optimize_model_cases)
  have step: "main_loop E ((model_type, c) # rest) w1 = (Inl (SystemExit 1), w2)"
    by (simp add: main_loop_step download opt)
  have loop: "main_loop E (MODELS E) w0 = (Inl (SystemExit 1), w2)"
    by (simp add: table main_loop_append before step)
  have "main E w = (Inl (SystemExit 1), w2)"
    by (simp add: main_unfold probe loop)
  with opt show ?thesis by simp
qed

theorem missing_model_file_aborts_witness:
  "\<not> os_path_exists
       (snd (download_step env_empty_archives (snd (hd (MODELS env_empty_archives)))
               (snd (os_system env_empty_archives probe_cmd (after_makedirs world0)))))
       (primary_model ''downloads'' ''ch_PP-OCRv3_det_infer'') \<and>
   \<not> os_path_exists
       (snd (download_step env_empty_archives (snd (hd (MODELS env_empty_archives)))
               (snd (os_system env_empty_archives probe_cmd (after_makedirs world0)))))
       (legacy_model ''downloads'' ''ch_PP-OCRv3_det_infer'') \<and>
   fst (main env_empty_archives world0) = Inl (SystemExit 1) \<and>
   trace (snd (main env_empty_archives world0)) =
     [System probe_cmd,
      Urlretrieve ''https://paddleocr.bj.bcebos.com/PP-OCRv3/chinese/ch_PP-OCRv3_det_infer.tar''
        ''ch_PP-OCRv3_det_infer.tar'']"
proof -
  let ?E = env_empty_archives
  let ?c = "snd (hd (MODELS ?E))"
  let ?w0 = "snd (os_system ?E probe_cmd (after_makedirs world0))"
  let ?w2 = "snd (download_step ?E ?c ?w0)"
  have n: "name ?c = ''ch_PP-OCRv3_det_infer''"
    by (simp add: env_defs run_defs)
  have probe: "os_system ?E probe_cmd (after_makedirs world0) = (0, ?w0)"
    by (simp add: env_defs os_system_def)
  have table: "MODELS ?E = [] @ (''detection'', ?c) # tl (MODELS ?E)"
    by (simp add: env_defs run_defs)
  have before: "main_loop ?E [] ?w0 = (Inr (), ?w0)"
    by simp
  have download: "download_step ?E ?c ?w0 = (Inr (), ?w2)"
    by (simp add: env_defs run_defs)
  have primary: "\<not> os_path_exists ?w2 (primary_model ''downloads'' (name ?c))"
    by (simp add: env_defs run_defs)
  have legacy: "\<not> os_path_exists ?w2 (legacy_model ''downloads'' (name ?c))"
    by (simp add: env_defs run_defs)
  have tr: "trace ?w2 =
     [System probe_cmd,
      Urlretrieve ''https://paddleocr.bj.bcebos.com/PP-OCRv3/chinese/ch_PP-OCRv3_det_infer.tar''
        ''ch_PP-OCRv3_det_infer.tar'']"
    by (simp add: env_defs run_defs)
  from missing_model_file_aborts [OF probe table before download primary legacy]
  have "main ?E world0 = (Inl (SystemExit 1), ?w2)" by simp
  with primary legacy tr show ?thesis by (simp add: n)
qed

subsection \<open>The dictionary and its fallback\<close>

text \<open>
  Claim C3. When fetching the dictionary raises an error, \<open>download_ppocr_dict\<close> returns
  normally, and the dictionary file then holds the fallback: the characters of \<open>chars\<close>,
  each followed by a newline. \<open>chars\<close> has 62 distinct characters, and they are exactly
  the ASCII letters and digits.
\<close>

theorem dict_fallback_on_fetch_error:
  assumes "net E w dict_url = Inl msg"
  shows "fst (download_ppocr_dict E w) = Inr () \<and>
         fs (snd (download_ppocr_dict E w)) dict_file =
           Some (File (concat (map (\<lambda>c. [c, CHR 0x0A]) chars))) \<and>
         length chars = 62 \<and> distinct chars \<and> set chars = {c. alnum c}"
proof -
  have "download_ppocr_dict E w =
          (Inr (), write_file dict_file (write_chars chars)
                     (w\<lparr>trace := trace w @ [Urlretrieve dict_url dict_file]\<rparr>))"
    using assms by (simp add: download_ppocr_dict_def urlretrieve_def Let_def)
  then have "fst (download_ppocr_dict E w) = Inr () \<and>
         fs (snd (download_ppocr_dict E w)) dict_file =
           Some (File (concat (map (\<lambda>c. [c, CHR 0x0A]) chars)))"
    by (simp add: write_file_def write_chars_concat)
  moreover have "length chars = 62 \<and> distinct chars"
    by (simp add: chars_def)
  moreover have "set chars = {c. alnum c}"
    using chars_alnum by blast
  ultimately show ?thesis by simp
qed

theorem dict_fallback_on_fetch_error_witness:
  "net env_offline world0 dict_url = Inl ''URLError'' \<and>
   fst (download_ppocr_dict env_offline world0) = Inr () \<and>
   fs (snd (download_ppocr_dict env_offline world0)) ''optimized_models/ppocr_keys_v1.txt'' =
     Some (File (concat (map (\<lambda>c. [c, CHR 0x0A]) chars)))"
proof -
  have h: "net env_offline world0 dict_url = Inl ''URLError''"
    by (simp add: env_offline_def mk_env_def web_down_def)
  from dict_fallback_on_fetch_error [OF h] h show ?thesis
    by (simp add: dict_file_def)
qed

subsection \<open>The configuration table\<close>

text \<open>
  Claim C4. For every version and either source, the table has the three model kinds
  \<open>detection\<close>, \<open>recognition\<close> and \<open>classifier\<close>, each with a non-empty URL, a non-empty
  name and a non-empty output file name. This holds for the tables of \<open>v3\<close>, \<open>v4\<close> and
  \<open>v5\<close>, and so for the table \<open>MODELS\<close> of every environment.
\<close>

theorem MODELS_well_formed:
  "well_formed (MODELS_table ''v3'' hf) \<and> well_formed (MODELS_table ''v4'' hf) \<and>
   well_formed (MODELS_table ''v5'' hf) \<and> well_formed (MODELS E)"
  by (simp add: well_formed_def MODELS_def MODELS_table_def nonempty_triple_def cls_url_def)

text \<open>
  Claim C5, as amended. The version selector is not validated. It is read with default
  \<open>v3\<close> and put in lower case; \<open>v5\<close> selects the table of v5, \<open>v4\<close> the table of v4,
  and every other value selects the table of v3. The three tables differ, so three
  versions are told apart, and an unset variable selects v3.
\<close>

theorem version_selection:
  "OCR_VERSION E = lower (case environ E ''OCR_VERSION'' of None \<Rightarrow> ''v3'' | Some v \<Rightarrow> v) \<and>
   MODELS E =
     MODELS_table
       (if OCR_VERSION E = ''v5'' then ''v5'' else if OCR_VERSION E = ''v4'' then ''v4'' else ''v3'')
       (USE_HUGGINGFACE E) \<and>
   (environ E ''OCR_VERSION'' = None \<longrightarrow> OCR_VERSION E = ''v3'') \<and>
   MODELS_table ''v3'' hf \<noteq> MODELS_table ''v4'' hf \<and>
   MODELS_table ''v3'' hf \<noteq> MODELS_table ''v5'' hf \<and>
   MODELS_table ''v4'' hf \<noteq> MODELS_table ''v5'' hf"
  by (simp add: MODELS_def MODELS_table_def OCR_VERSION_def environ_get_def lower_def lower_char_def)

theorem version_selection_witness:
  "environ (env_v3 Map.empty) ''OCR_VERSION'' = None \<and>
   OCR_VERSION (env_v3 Map.empty) = ''v3'' \<and>
   MODELS (env_v3 Map.empty) = MODELS_table ''v3'' False \<and>
   MODELS (env_v3 [''OCR_VERSION'' \<mapsto> ''V5'']) = MODELS_table ''v5'' False"
proof -
  have h: "environ (env_v3 Map.empty) ''OCR_VERSION'' = None"
    by (simp add: env_v3_def mk_env_def)
  have hf: "USE_HUGGINGFACE (env_v3 vars) = False" if "vars ''USE_HF'' = None" for vars
    using that by (simp add: USE_HUGGINGFACE_def environ_get_def env_v3_def mk_env_def lower_def)
  have "lower ''V5'' = ''v5''"
    by code_simp
  then have v5: "OCR_VERSION (env_v3 [''OCR_VERSION'' \<mapsto> ''V5'']) = ''v5''"
    by (simp add: OCR_VERSION_def environ_get_def env_v3_def mk_env_def)
  note vs = version_selection [where hf = False]
  from vs [where E = "env_v3 Map.empty"] h
  have a1: "OCR_VERSION (env_v3 Map.empty) = ''v3''"
    by blast
  from vs [where E = "env_v3 Map.empty"]
  have "MODELS (env_v3 Map.empty) =
     MODELS_table
       (if OCR_VERSION (env_v3 Map.empty) = ''v5'' then ''v5''
        else if OCR_VERSION (env_v3 Map.empty) = ''v4'' then ''v4'' else ''v3'')
       (USE_HUGGINGFACE (env_v3 Map.empty))"
    by blast
  then have a2: "MODELS (env_v3 Map.empty) = MODELS_table ''v3'' False"
    by (simp add: a1 hf)
  from vs [where E = "env_v3 [''OCR_VERSION'' \<mapsto> ''V5'']"]
  have "MODELS (env_v3 [''OCR_VERSION'' \<mapsto> ''V5'']) =
     MODELS_table
       (if OCR_VERSION (env_v3 [''OCR_VERSION'' \<mapsto> ''V5'']) = ''v5'' then ''v5''
        else if OCR_VERSION (env_v3 [''OCR_VERSION'' \<mapsto> ''V5'']) = ''v4'' then ''v4''
        else ''v3'')
       (USE_HUGGINGFACE (env_v3 [''OCR_VERSION'' \<mapsto> ''V5'']))"
    by blast
  then have b: "MODELS (env_v3 [''OCR_VERSION'' \<mapsto> ''V5'']) = MODELS_table ''v5'' False"
    by (simp add: v5 hf)
  from h a1 a2 b show ?thesis by blast
qed

text \<open>
  Claim C5 as stated fails: the value \<open>latest\<close> is none of the three tags, and it is
  accepted. The table is that of \<open>v3\<close> and the run ends with status 0.
\<close>

theorem unlisted_version_accepted:
  "OCR_VERSION (env_v3 [''OCR_VERSION'' \<mapsto> ''latest'']) \<notin> {''v3'', ''v4'', ''v5''} \<and>
   MODELS (env_v3 [''OCR_VERSION'' \<mapsto> ''latest'']) = MODELS_table ''v3'' False \<and>
   exit_status (fst (main (env_v3 [''OCR_VERSION'' \<mapsto> ''latest'']) world0)) = 0"
proof -
  let ?E = "env_v3 [''OCR_VERSION'' \<mapsto> ''latest'']"
  have v: "OCR_VERSION ?E \<notin> {''v3'', ''v4'', ''v5''}"
    by (simp add: OCR_VERSION_def environ_get_def env_v3_def mk_env_def lower_def lower_char_def)
  have t: "MODELS ?E = MODELS_table ''v3'' False"
    by (rule v3_table) simp_all
  from main_success [of ?E world0] v3_probe [of "[''OCR_VERSION'' \<mapsto> ''latest'']"]
    v3_loop [of "[''OCR_VERSION'' \<mapsto> ''latest'']"]
  obtain w5 where "main ?E world0 = (Inr (), shutil_rmtree ''downloads'' w5)"
    unfolding t by blast
  then have "exit_status (fst (main ?E world0)) = 0" by simp
  with v t show ?thesis by simp
qed

subsection \<open>The files \<open>optimize_model\<close> works on\<close>

text \<open>
  Claim C6. \<open>optimize_model\<close> works on the legacy names \<open>{model_name}.pdmodel\<close> and
  \<open>{model_name}.pdiparams\<close> exactly when \<open>inference.pdmodel\<close> does not exist. When it
  exists, the command that is run names \<open>inference.pdmodel\<close> and
  \<open>inference.pdiparams\<close>. When it does not, the function goes on with the legacy names
  without raising: if the legacy model file exists the command that is run names
  \<open>{model_name}.pdmodel\<close> and \<open>{model_name}.pdiparams\<close>, and if it does not the
  function returns \<open>False\<close> and runs nothing. In both cases where a command is run,
  the result is whether its status is 0, and the world is the one the command leaves.
\<close>

theorem legacy_naming_fallback:
  "(os_path_exists w (os_path_join3 d n ''inference.pdmodel'') \<longrightarrow>
      optimize_model E d n out w =
        (let cmd = ''paddle_lite_opt --model_file='' @ os_path_join3 d n ''inference.pdmodel'' @
                   '' --param_file='' @ os_path_join3 d n ''inference.pdiparams'' @
                   '' --optimize_out='' @ os_path_join ''optimized_models'' out @
                   '' --valid_targets=arm --optimize_out_type=naive_buffer --enable_fp16=true''
         in (fst (shell E w cmd) = 0,
             \<lparr>fs = snd (shell E w cmd), trace = trace w @ [System cmd]\<rparr>))) \<and>
   (\<not> os_path_exists w (os_path_join3 d n ''inference.pdmodel'') \<and>
    os_path_exists w (os_path_join3 d n (n @ ''.pdmodel'')) \<longrightarrow>
      optimize_model E d n out w =
        (let cmd = ''paddle_lite_opt --model_file='' @ os_path_join3 d n (n @ ''.pdmodel'') @
                   '' --param_file='' @ os_path_join3 d n (n @ ''.pdiparams'') @
                   '' --optimize_out='' @ os_path_join ''optimized_models'' out @
                   '' --valid_targets=arm --optimize_out_type=naive_buffer --enable_fp16=true''
         in (fst (shell E w cmd) = 0,
             \<lparr>fs = snd (shell E w cmd), trace = trace w @ [System cmd]\<rparr>))) \<and>
   (\<not> os_path_exists w (os_path_join3 d n ''inference.pdmodel'') \<and>
    \<not> os_path_exists w (os_path_join3 d n (n @ ''.pdmodel'')) \<longrightarrow>
      optimize_model E d n out w = (False, w))"
  by (simp add: optimize_model_cases run_optimizer_def opt_cmd_def Let_def
        primary_model_def primary_param_def legacy_model_def legacy_param_def)

theorem legacy_naming_fallback_witness:
  "os_path_exists world_primary ''downloads/m/inference.pdmodel'' \<and>
   optimize_model env_empty_archives ''downloads'' ''m'' ''out'' world_primary =
     (True,
      \<lparr>fs = fs world_primary,
       trace = [System ''paddle_lite_opt --model_file=downloads/m/inference.pdmodel --param_file=downloads/m/inference.pdiparams --optimize_out=optimized_models/out --valid_targets=arm --optimize_out_type=naive_buffer --enable_fp16=true'']\<rparr>) \<and>
   \<not> os_path_exists world_legacy ''downloads/m/inference.pdmodel'' \<and>
   os_path_exists world_legacy ''downloads/m/m.pdmodel'' \<and>
   optimize_model env_empty_archives ''downloads'' ''m'' ''out'' world_legacy =
     (True,
      \<lparr>fs = fs world_legacy,
       trace = [System ''paddle_lite_opt --model_file=downloads/m/m.pdmodel --param_file=downloads/m/m.pdiparams --optimize_out=optimized_models/out --valid_targets=arm --optimize_out_type=naive_buffer --enable_fp16=true'']\<rparr>) \<and>
   \<not> os_path_exists world0 ''downloads/m/inference.pdmodel'' \<and>
   \<not> os_path_exists world0 ''downloads/m/m.pdmodel'' \<and>
   optimize_model env_empty_archives ''downloads'' ''m'' ''out'' world0 = (False, world0)"
proof -
  have paths:
    "os_path_join3 ''downloads'' ''m'' ''inference.pdmodel'' = ''downloads/m/inference.pdmodel''"
    "os_path_join3 ''downloads'' ''m'' ''inference.pdiparams'' = ''downloads/m/inference.pdiparams''"
    "os_path_join3 ''downloads'' ''m'' (''m'' @ ''.pdmodel'') = ''downloads/m/m.pdmodel''"
    "os_path_join3 ''downloads'' ''m'' (''m'' @ ''.pdiparams'') = ''downloads/m/m.pdiparams''"
    "os_path_join ''optimized_models'' ''out'' = ''optimized_models/out''"
    by (simp_all add: os_path_join3_def os_path_join_def)
  have sh: "shell env_empty_archives w cmd = (0, fs w)" for w cmd
    by (simp add: env_empty_archives_def mk_env_def)
  have t: "trace world_primary = []" "trace world_legacy = []"
    by (simp_all add: world_primary_def world_legacy_def)
  have p: "os_path_exists world_primary ''downloads/m/inference.pdmodel''"
    by (simp add: os_path_exists_def world_primary_def)
  have l: "\<not> os_path_exists world_legacy ''downloads/m/inference.pdmodel'' \<and>
           os_path_exists world_legacy ''downloads/m/m.pdmodel''"
    by (simp add: os_path_exists_def world_legacy_def)
  have z: "\<not> os_path_exists world0 ''downloads/m/inference.pdmodel'' \<and>
           \<not> os_path_exists world0 ''downloads/m/m.pdmodel''"
    by (simp add: os_path_exists_def world0_def)
  note inst = legacy_naming_fallback [where d = "''downloads''" and n = "''m''"
      and E = env_empty_archives and out = "''out''", unfolded paths Let_def sh fst_conv snd_conv]
  from inst [where w = world_primary] p
  have a: "optimize_model env_empty_archives ''downloads'' ''m'' ''out'' world_primary =
     (True,
      \<lparr>fs = fs world_primary,
       trace = [System ''paddle_lite_opt --model_file=downloads/m/inference.pdmodel --param_file=downloads/m/inference.pdiparams --optimize_out=optimized_models/out --valid_targets=arm --optimize_out_type=naive_buffer --enable_fp16=true'']\<rparr>)"
    by (simp add: t)
  from inst [where w = world_legacy] l
  have b: "optimize_model env_empty_archives ''downloads'' ''m'' ''out'' world_legacy =
     (True,
      \<lparr>fs = fs world_legacy,
       trace = [System ''paddle_lite_opt --model_file=downloads/m/m.pdmodel --param_file=downloads/m/m.pdiparams --optimize_out=optimized_models/out --valid_targets=arm --optimize_out_type=naive_buffer --enable_fp16=true'']\<rparr>)"
    by (simp add: t)
  from inst [where w = world0] z
  have c: "optimize_model env_empty_archives ''downloads'' ''m'' ''out'' world0 = (False, world0)"
    by blast
  from p l z a b c show ?thesis
    by blast
qed

text \<open>
  Claim C10. Only the model file is checked before the optimizer is invoked. Whenever
  the model file \<open>optimize_model\<close> settles on exists and the parameter file of the same
  naming convention does not, the function does not take the error branch: it issues the
  optimizer command, and the \<open>--param_file\<close> argument of that command is the parameter
  path that does not exist.
\<close>

theorem param_file_not_checked:
  "(os_path_exists w (os_path_join3 d n ''inference.pdmodel'') \<and>
    \<not> os_path_exists w (os_path_join3 d n ''inference.pdiparams'') \<longrightarrow>
      trace (snd (optimize_model E d n out w)) =
        trace w @
        [System (''paddle_lite_opt --model_file='' @ os_path_join3 d n ''inference.pdmodel'' @
                 '' --param_file='' @ os_path_join3 d n ''inference.pdiparams'' @
                 '' --optimize_out='' @ os_path_join ''optimized_models'' out @
                 '' --valid_targets=arm --optimize_out_type=naive_buffer --enable_fp16=true'')]) \<and>
   (\<not> os_path_exists w (os_path_join3 d n ''inference.pdmodel'') \<and>
    os_path_exists w (os_path_join3 d n (n @ ''.pdmodel'')) \<and>
    \<not> os_path_exists w (os_path_join3 d n (n @ ''.pdiparams'')) \<longrightarrow>
      trace (snd (optimize_model E d n out w)) =
        trace w @
        [System (''paddle_lite_opt --model_file='' @ os_path_join3 d n (n @ ''.pdmodel'') @
                 '' --param_file='' @ os_path_join3 d n (n @ ''.pdiparams'') @
                 '' --optimize_out='' @ os_path_join ''optimized_models'' out @
                 '' --valid_targets=arm --optimize_out_type=naive_buffer --enable_fp16=true'')])"
  by (simp add: optimize_model_cases run_optimizer_def opt_cmd_def
        primary_model_def primary_param_def legacy_model_def legacy_param_def)

theorem param_file_not_checked_witness:
  "os_path_exists world_primary ''downloads/m/inference.pdmodel'' \<and>
   \<not> os_path_exists world_primary ''downloads/m/inference.pdiparams'' \<and>
   trace (snd (optimize_model env_empty_archives ''downloads'' ''m'' ''out'' world_primary)) =
     [System ''paddle_lite_opt --model_file=downloads/m/inference.pdmodel --param_file=downloads/m/inference.pdiparams --optimize_out=optimized_models/out --valid_targets=arm --optimize_out_type=naive_buffer --enable_fp16=true''] \<and>
   \<not> os_path_exists world_legacy ''downloads/m/inference.pdmodel'' \<and>
   os_path_exists world_legacy ''downloads/m/m.pdmodel'' \<and>
   \<not> os_path_exists world_legacy ''downloads/m/m.pdiparams'' \<and>
   trace (snd (optimize_model env_empty_archives ''downloads'' ''m'' ''out'' world_legacy)) =
     [System ''paddle_lite_opt --model_file=downloads/m/m.pdmodel --param_file=downloads/m/m.pdiparams --optimize_out=optimized_models/out --valid_targets=arm --optimize_out_type=naive_buffer --enable_fp16=true'']"
proof -
  have paths:
    "os_path_join3 ''downloads'' ''m'' ''inference.pdmodel'' = ''downloads/m/inference.pdmodel''"
    "os_path_join3 ''downloads'' ''m'' ''inference.pdiparams'' = ''downloads/m/inference.pdiparams''"
    "os_path_join3 ''downloads'' ''m'' (''m'' @ ''.pdmodel'') = ''downloads/m/m.pdmodel''"
    "os_path_join3 ''downloads'' ''m'' (''m'' @ ''.pdiparams'') = ''downloads/m/m.pdiparams''"
    "os_path_join ''optimized_models'' ''out'' = ''optimized_models/out''"
    by (simp_all add: os_path_join3_def os_path_join_def)
  have p: "os_path_exists world_primary ''downloads/m/inference.pdmodel'' \<and>
           \<not> os_path_exists world_primary ''downloads/m/inference.pdiparams''"
    by (simp add: os_path_exists_def world_primary_def)
  have l: "\<not> os_path_exists world_legacy ''downloads/m/inference.pdmodel'' \<and>
           os_path_exists world_legacy ''downloads/m/m.pdmodel'' \<and>
           \<not> os_path_exists world_legacy ''downloads/m/m.pdiparams''"
    by (simp add: os_path_exists_def world_legacy_def)
  have t: "trace world_primary = []" "trace world_legacy = []"
    by (simp_all add: world_primary_def world_legacy_def)
  note inst = param_file_not_checked [where d = "''downloads''" and n = "''m''"
      and E = env_empty_archives and out = "''out''", unfolded paths]
  from inst [where w = world_primary] p
  have a: "trace (snd (optimize_model env_empty_archives ''downloads'' ''m'' ''out'' world_primary)) =
     [System ''paddle_lite_opt --model_file=downloads/m/inference.pdmodel --param_file=downloads/m/inference.pdiparams --optimize_out=optimized_models/out --valid_targets=arm --optimize_out_type=naive_buffer --enable_fp16=true'']"
    by (simp add: t)
  from inst [where w = world_legacy] l
  have b: "trace (snd (optimize_model env_empty_archives ''downloads'' ''m'' ''out'' world_legacy)) =
     [System ''paddle_lite_opt --model_file=downloads/m/m.pdmodel --param_file=downloads/m/m.pdiparams --optimize_out=optimized_models/out --valid_targets=arm --optimize_out_type=naive_buffer --enable_fp16=true'']"
    by (simp add: t)
  from p l a b show ?thesis
    by blast
qed

subsection \<open>Downloads\<close>

text \<open>
  Claim C7. \<open>download_hf_model\<close> fetches the files of \<open>hf_files\<close> in order. When the
  files before \<open>filename\<close> have been fetched and fetching \<open>filename\<close> raises an error,
  \<open>download_hf_model\<close> raises that same error. The world it leaves is the one in which
  the failed fetch was attempted: the remaining files are not fetched, no file is
  written in their place and \<open>inference.pdmodel\<close> is not created.
\<close>

theorem download_hf_model_reraises:
  assumes files: "hf_files = fetched @ filename # remaining"
      and fetched: "download_hf_model_loop E (repo_url @ ''/resolve/main'')
                      (os_path_join extract_path model_name) fetched
                      (os_makedirs (os_path_join extract_path model_name) w) = (Inr (), w1)"
      and fails: "net E w1 (repo_url @ ''/resolve/main'' @ ''/'' @ filename) = Inl msg"
  shows "download_hf_model E repo_url model_name extract_path w =
           (Inl (Error msg),
            w1\<lparr>trace := trace w1 @
               [Urlretrieve (repo_url @ ''/resolve/main'' @ ''/'' @ filename)
                  (os_path_join (os_path_join extract_path model_name) filename)]\<rparr>)"
proof -
  have one: "download_hf_model_loop E (repo_url @ ''/resolve/main'')
               (os_path_join extract_path model_name) (filename # remaining) w1 =
             (Inl (Error msg),
              w1\<lparr>trace := trace w1 @
                 [Urlretrieve (repo_url @ ''/resolve/main'' @ ''/'' @ filename)
                    (os_path_join (os_path_join extract_path model_name) filename)]\<rparr>)"
    using fails by (simp add: Let_def urlretrieve_def)
  show ?thesis
    unfolding download_hf_model_def Let_def files download_hf_model_loop_append fetched
    using one by simp
qed

theorem download_hf_model_reraises_witness:
  "fst (download_hf_model env_no_json
          ''https://huggingface.co/PaddlePaddle/PP-OCRv5_mobile_det'' ''PP-OCRv5_mobile_det''
          ''downloads'' world0) = Inl (Error ''HTTP Error 404: Not Found'') \<and>
   fs (snd (download_hf_model env_no_json
          ''https://huggingface.co/PaddlePaddle/PP-OCRv5_mobile_det'' ''PP-OCRv5_mobile_det''
          ''downloads'' world0)) ''downloads/PP-OCRv5_mobile_det/inference.pdmodel'' = None"
proof -
  let ?r = "''https://huggingface.co/PaddlePaddle/PP-OCRv5_mobile_det''"
  let ?d = "os_path_join ''downloads'' ''PP-OCRv5_mobile_det''"
  let ?w1 = "snd (download_hf_model_loop env_no_json (?r @ ''/resolve/main'') ?d
                    [''inference.pdiparams''] (os_makedirs ?d world0))"
  have files: "hf_files = [''inference.pdiparams''] @ ''inference.json'' # []"
    by (simp add: hf_files_def)
  have fetched: "download_hf_model_loop env_no_json (?r @ ''/resolve/main'') ?d
                    [''inference.pdiparams''] (os_makedirs ?d world0) = (Inr (), ?w1)"
    by (simp add: env_defs run_defs)
  have fails: "net env_no_json ?w1 (?r @ ''/resolve/main'' @ ''/'' @ ''inference.json'') =
                 Inl ''HTTP Error 404: Not Found''"
    by (simp add: env_defs)
  have nofile: "fs ?w1 ''downloads/PP-OCRv5_mobile_det/inference.pdmodel'' = None"
    by (simp add: env_defs run_defs)
  from download_hf_model_reraises [OF files fetched fails] nofile
  show ?thesis by simp
qed

text \<open>
  Claim C8. When \<open>download_and_extract\<close> returns normally, the archive has been fetched
  to the file named after the last segment of the URL, its members have been unpacked
  below the destination, and the archive file has then been removed: it does not exist
  in the world the function leaves.
\<close>

theorem download_and_extract_removes_archive:
  assumes "fst (download_and_extract E u extract_path w) = Inr ()"
  shows "\<not> os_path_exists (snd (download_and_extract E u extract_path w)) (split_last u) \<and>
         (\<exists>body ms. net E w u = Inr body \<and> tar_members E body = Inr ms \<and>
            fs (snd (download_and_extract E u extract_path w)) =
              (fold (extract_member extract_path) ms ((fs w)(split_last u \<mapsto> File body)))
                (split_last u := None))"
  using assms
  by (auto simp add: download_and_extract_def Let_def urlretrieve_def tarfile_extractall_def
        write_file_def os_remove_def os_path_exists_def
      split: sum.splits prod.splits option.splits node.splits)

theorem download_and_extract_removes_archive_witness:
  "fst (download_and_extract (env_v3 Map.empty) cls_url ''downloads'' world0) = Inr () \<and>
   split_last cls_url = ''ch_ppocr_mobile_v2.0_cls_infer.tar'' \<and>
   \<not> os_path_exists (snd (download_and_extract (env_v3 Map.empty) cls_url ''downloads'' world0))
       ''ch_ppocr_mobile_v2.0_cls_infer.tar'' \<and>
   os_path_exists (snd (download_and_extract (env_v3 Map.empty) cls_url ''downloads'' world0))
       ''downloads/ch_ppocr_mobile_v2.0_cls_infer/inference.pdmodel''"
proof -
  have h: "fst (download_and_extract (env_v3 Map.empty) cls_url ''downloads'' world0) = Inr ()"
    by (simp add: env_defs run_defs)
  have s: "split_last cls_url = ''ch_ppocr_mobile_v2.0_cls_infer.tar''"
    by (simp add: split_last_def cls_url_def)
  have e: "os_path_exists (snd (download_and_extract (env_v3 Map.empty) cls_url ''downloads'' world0))
       ''downloads/ch_ppocr_mobile_v2.0_cls_infer/inference.pdmodel''"
    by (simp add: env_defs run_defs)
  from download_and_extract_removes_archive [OF h] h s e
  show ?thesis by simp
qed

subsection \<open>Cleaning up\<close>

text \<open>
  Claim C9. When the probe succeeds and the loop of \<open>main\<close> processes every model, \<open>main\<close>
  returns normally, and in the world it leaves neither \<open>downloads\<close> nor any path below
  it exists.
\<close>

theorem downloads_removed_after_success:
  assumes "fst (shell E (after_makedirs w) probe_cmd) = 0"
      and "fst (main_loop E (MODELS E) (snd (os_system E probe_cmd (after_makedirs w)))) = Inr ()"
  shows "fst (main E w) = Inr () \<and>
         \<not> os_path_exists (snd (main E w)) ''downloads'' \<and>
         (\<forall>p. under ''downloads'' p \<longrightarrow> \<not> os_path_exists (snd (main E w)) p)"
proof -
  from main_success [OF assms]
  obtain w5 where "main E w = (Inr (), shutil_rmtree ''downloads'' w5)" ..
  then show ?thesis
    by (simp add: shutil_rmtree_def os_path_exists_def under_def)
qed

theorem downloads_removed_after_success_witness:
  "fst (shell (env_v3 Map.empty) (after_makedirs world0) probe_cmd) = 0 \<and>
   fst (main_loop (env_v3 Map.empty) (MODELS (env_v3 Map.empty))
          (snd (os_system (env_v3 Map.empty) probe_cmd (after_makedirs world0)))) = Inr () \<and>
   fst (main (env_v3 Map.empty) world0) = Inr () \<and>
   \<not> os_path_exists (snd (main (env_v3 Map.empty) world0)) ''downloads'' \<and>
   \<not> os_path_exists (snd (main (env_v3 Map.empty) world0))
       ''downloads/ch_PP-OCRv3_det_infer/inference.pdmodel''"
proof -
  have t: "MODELS (env_v3 Map.empty) = MODELS_table ''v3'' False"
    by (rule v3_table) simp_all
  have p: "fst (shell (env_v3 Map.empty) (after_makedirs world0) probe_cmd) = 0"
    by (rule v3_probe)
  have l: "fst (main_loop (env_v3 Map.empty) (MODELS (env_v3 Map.empty))
          (snd (os_system (env_v3 Map.empty) probe_cmd (after_makedirs world0)))) = Inr ()"
    unfolding t by (rule v3_loop)
  have u: "under ''downloads'' ''downloads/ch_PP-OCRv3_det_infer/inference.pdmodel''"
    by (simp add: under_def)
  from downloads_removed_after_success [OF p l] u
  have "fst (main (env_v3 Map.empty) world0) = Inr () \<and>
   \<not> os_path_exists (snd (main (env_v3 Map.empty) world0)) ''downloads'' \<and>
   \<not> os_path_exists (snd (main (env_v3 Map.empty) world0))
       ''downloads/ch_PP-OCRv3_det_infer/inference.pdmodel''"
    by blast
  with p l show ?thesis by blast
qed

end
